theory Spec2Isabelle
  imports Main "HOL-Library.Sublist" "HOL-Library.AList"
begin

section \<open>The r2c client: authentication token lifecycle and request dispatch\<close>

text \<open>
  A shallow embedding of \<^verbatim>\<open>src/index.ts\<close> (class \<^verbatim>\<open>R2CClient\<close>) and of
  \<^verbatim>\<open>src/api.ts\<close> (classes \<^verbatim>\<open>R2CError\<close> and \<^verbatim>\<open>APIClient\<close>).

  Conventions of the embedding.
  \<^item> A value that may be \<^verbatim>\<open>undefined\<close> or \<^verbatim>\<open>null\<close> is an \<open>option\<close>; both are
    \<open>None\<close> where the code treats them alike.
  \<^item> A JavaScript number is an \<open>int\<close> (milliseconds, seconds, a count), an HTTP status a
    \<open>nat\<close>; floating-point rounding and \<^verbatim>\<open>NaN\<close> are outside the model.
  \<^item> A thrown value, or the reason of a rejected promise, is a value of type \<open>thrown\<close>;
    a function that may throw returns \<open>thrown + 'a\<close> with \<open>Inl\<close> the exception.
  \<^item> An \<^verbatim>\<open>async\<close> function is split at its \<^verbatim>\<open>await\<close>s into the segments that run
    without interruption; the segments are the steps of a transition system whose
    events are the entries into the client and the settlements delivered by the
    event loop.
\<close>

subsection \<open>JavaScript values and their coercions\<close>

text \<open>Values of type \<^verbatim>\<open>unknown\<close> that reach the client: request bodies and query values.\<close>

datatype json =
    JNull
  | JBool bool
  | JNum int
  | JStr string
  | JArr "json list"
  | JObj "(string \<times> json) list"

text \<open>
  Truthiness, as a condition or the operand of \<^verbatim>\<open>!\<close>, \<^verbatim>\<open>&&\<close>, \<^verbatim>\<open>||\<close> and \<^verbatim>\<open>? :\<close>
  reads it. \<open>None\<close> is \<^verbatim>\<open>undefined\<close>.
\<close>

fun truthy :: "json option \<Rightarrow> bool" where
  "truthy None = False"
| "truthy (Some JNull) = False"
| "truthy (Some (JBool b)) = b"
| "truthy (Some (JNum n)) = (n \<noteq> 0)"
| "truthy (Some (JStr s)) = (s \<noteq> [])"
| "truthy (Some (JArr xs)) = True"
| "truthy (Some (JObj kvs)) = True"

definition truthy_string :: "string option \<Rightarrow> bool" where
  "truthy_string s = (case s of None \<Rightarrow> False | Some t \<Rightarrow> t \<noteq> [])"

definition truthy_number :: "int option \<Rightarrow> bool" where
  "truthy_number n = (case n of None \<Rightarrow> False | Some k \<Rightarrow> k \<noteq> 0)"

text \<open>Decimal digits of a number, as a template literal or \<^verbatim>\<open>String\<close> prints them.\<close>

definition digit_char :: "nat \<Rightarrow> char" where
  "digit_char d = char_of (48 + d)"

fun string_of_nat :: "nat \<Rightarrow> string" where
  "string_of_nat n =
     (if n < 10 then [digit_char n] else string_of_nat (n div 10) @ [digit_char (n mod 10)])"

declare string_of_nat.simps [simp del]

definition string_of_int :: "int \<Rightarrow> string" where
  "string_of_int i = (if i < 0 then CHR ''-'' # string_of_nat (nat (- i)) else string_of_nat (nat i))"

fun intercalate :: "string \<Rightarrow> string list \<Rightarrow> string" where
  "intercalate sep [] = []"
| "intercalate sep [x] = x"
| "intercalate sep (x # y # ys) = x @ sep @ intercalate sep (y # ys)"

text \<open>
  \<^verbatim>\<open>String(value)\<close> on a value that is neither \<^verbatim>\<open>undefined\<close> nor \<^verbatim>\<open>null\<close>. A number
  is printed in decimal, as JavaScript prints an integer of magnitude below
  \<open>10\<^sup>2\<^sup>1\<close>; the exponent form of larger magnitudes is outside the model.
\<close>

fun String_js :: "json \<Rightarrow> string" where
  "String_js JNull = ''null''"
| "String_js (JBool b) = (if b then ''true'' else ''false'')"
| "String_js (JNum n) = string_of_int n"
| "String_js (JStr s) = s"
| "String_js (JArr xs) =
     intercalate '','' (map (\<lambda>x. if x = JNull then [] else String_js x) xs)"
| "String_js (JObj kvs) = ''[object Object]''"

text \<open>\<^verbatim>\<open>String.prototype.includes\<close>.\<close>

primrec includes_js :: "string \<Rightarrow> string \<Rightarrow> bool" where
  "includes_js [] sub = (sub = [])"
| "includes_js (c # cs) sub = (prefix sub (c # cs) \<or> includes_js cs sub)"

text \<open>
  \<^verbatim>\<open>URLSearchParams.prototype.toString\<close>: the application/x-www-form-urlencoded
  serialiser over the bytes of each name and value.
\<close>

definition hex_digit :: "nat \<Rightarrow> char" where
  "hex_digit d = (if d < 10 then char_of (48 + d) else char_of (55 + d))"

definition form_byte :: "char \<Rightarrow> string" where
  "form_byte c =
     (let n = (of_char c :: nat) in
      if (48 \<le> n \<and> n \<le> 57) \<or> (65 \<le> n \<and> n \<le> 90) \<or> (97 \<le> n \<and> n \<le> 122)
         \<or> c = CHR ''*'' \<or> c = CHR ''-'' \<or> c = CHR ''.'' \<or> c = CHR ''_''
      then [c]
      else if c = CHR '' '' then ''+''
      else [CHR ''%'', hex_digit (n div 16), hex_digit (n mod 16)])"

definition URLSearchParams_toString :: "(string \<times> string) list \<Rightarrow> string" where
  "URLSearchParams_toString params =
     intercalate ''&''
       (map (\<lambda>(k, v). concat (map form_byte k) @ ''='' @ concat (map form_byte v)) params)"

text \<open>
  An object literal with spreads, \<^verbatim>\<open>{...a, ...b}\<close>: the entries of \<open>b\<close> are assigned
  over those of \<open>a\<close>, a key that is already there keeping its place.
\<close>

definition spread :: "(string \<times> string) list \<Rightarrow> (string \<times> string) list \<Rightarrow> (string \<times> string) list" where
  "spread a b = fold (\<lambda>(k, v). AList.update k v) b a"

subsection \<open>Data model\<close>

text \<open>\<^verbatim>\<open>Headers\<close>: names in lower case, one entry for each name.\<close>

type_synonym Headers = "(string \<times> string) list"

definition Headers_get :: "Headers \<Rightarrow> string \<Rightarrow> string option" where
  "Headers_get hs name = map_of hs name"

record OAuthCredentials =
  username :: string
  password :: string
  site_id :: string
  client_id :: string
  client_secret :: string
  identity_url :: "string option"

record TokenCache =
  access_token :: string
  expires_at :: int

record R2CError =
  message :: string
  status :: "nat option"
  headers :: "Headers option"
  error :: "string option"

text \<open>
  What a \<^verbatim>\<open>throw\<close> or a rejected promise carries: an \<^verbatim>\<open>R2CError\<close> of the client, or
  an exception of the platform (a transport failure, the \<^verbatim>\<open>SyntaxError\<close> of
  \<^verbatim>\<open>response.json()\<close>).
\<close>

datatype thrown = R2C R2CError | Foreign string

text \<open>
  The \<^verbatim>\<open>Response\<close> members the client reads. \<open>text_r\<close> is what \<^verbatim>\<open>response.text()\<close>
  resolves to; \<open>json_r\<close> is what \<^verbatim>\<open>response.json()\<close> resolves to, read at the type the
  caller asserts for it, \<open>None\<close> when the body is not JSON and \<^verbatim>\<open>json()\<close> rejects.
\<close>

record 'a Response =
  ok :: bool
  status_r :: nat
  statusText :: string
  headers_r :: Headers
  text_r :: string
  json_r :: "'a option"

text \<open>
  The token endpoint's body at the asserted type
  \<^verbatim>\<open>{ access_token: string; expires_in: number }\<close>; a member the server leaves out is
  \<open>None\<close>. A body that is the JSON value \<^verbatim>\<open>null\<close> has no value at this type: on it the
  destructuring throws a \<^verbatim>\<open>TypeError\<close>, before the cache is written.
\<close>

record TokenData =
  access_token_d :: "string option"
  expires_in :: "int option"

text \<open>\<^verbatim>\<open>RequestInit['body']\<close> as the client builds it.\<close>

datatype BodyInit =
    JSON_stringify json
  | BodyString string

text \<open>One invocation of the injected \<^verbatim>\<open>fetch(url, init)\<close>.\<close>

record FetchCall =
  url :: string
  method_i :: "string option"
  headers_i :: Headers
  body_i :: "BodyInit option"

record RequestOptions =
  path :: string
  query :: "(string \<times> json option) list option"
  body :: "json option"
  method_o :: "string option"
  headers_o :: "Headers option"

record ClientOptions =
  bearerToken_o :: "string option"
  oauthCredentials_o :: "OAuthCredentials option"
  baseURL_o :: "string option"

text \<open>
  The fields of an \<^verbatim>\<open>APIClient\<close>. \<open>refreshPromise\<close> holds the address of a promise in
  the store of the \<open>world\<close> below. The \<^verbatim>\<open>fetch\<close> field is the environment: its calls
  are logged, its settlements are events.
\<close>

record APIClient =
  baseURL :: string
  bearerToken :: "string option"
  oauthCredentials :: "OAuthCredentials option"
  tokenCache :: "TokenCache option"
  refreshPromise :: "nat option"

definition TOKEN_BUFFER_MS :: int where
  "TOKEN_BUFFER_MS = 60000"

subsection \<open>Construction\<close>

definition R2CError_new :: "string \<Rightarrow> R2CError" where
  "R2CError_new m = \<lparr>message = m, status = None, headers = None, error = None\<rparr>"

text \<open>The constructor of \<^verbatim>\<open>APIClient\<close>.\<close>

definition APIClient_new ::
  "string option \<Rightarrow> string option \<Rightarrow> OAuthCredentials option \<Rightarrow> APIClient" where
  "APIClient_new base bearer creds =
     \<lparr>baseURL = (case base of None \<Rightarrow> ''https://www.r2clive.com/api/Jobsheet/2'' | Some b \<Rightarrow> b),
      bearerToken = (if truthy_string bearer then bearer else None),
      oauthCredentials = creds,
      tokenCache = None,
      refreshPromise = None\<rparr>"

text \<open>The constructor of \<^verbatim>\<open>R2CClient\<close>.\<close>

definition R2CClient :: "ClientOptions \<Rightarrow> thrown + APIClient" where
  "R2CClient opts =
     (if \<not> truthy_string (bearerToken_o opts) \<and> oauthCredentials_o opts = None
      then Inl (R2C (R2CError_new ''Either bearerToken or oauthCredentials is required''))
      else if truthy_string (bearerToken_o opts) \<and> oauthCredentials_o opts \<noteq> None
      then Inl (R2C (R2CError_new
             ''Cannot provide both bearerToken and oauthCredentials. Choose one authentication method.''))
      else Inr (APIClient_new
             (Some (case baseURL_o opts of
                      None \<Rightarrow> ''https://www.r2clive.com/api/Jobsheet/2''
                    | Some b \<Rightarrow> if b = [] then ''https://www.r2clive.com/api/Jobsheet/2'' else b))
             (if truthy_string (bearerToken_o opts) then bearerToken_o opts else None)
             (oauthCredentials_o opts)))"

subsection \<open>The token cache\<close>

definition isTokenValid :: "APIClient \<Rightarrow> int \<Rightarrow> bool" where
  "isTokenValid c now =
     (case tokenCache c of
        None \<Rightarrow> False
      | Some tc \<Rightarrow> expires_at tc > now + TOKEN_BUFFER_MS)"

definition clearToken :: "APIClient \<Rightarrow> APIClient" where
  "clearToken c = c\<lparr>tokenCache := None\<rparr>"

definition setToken :: "string \<Rightarrow> int \<Rightarrow> int \<Rightarrow> APIClient \<Rightarrow> APIClient" where
  "setToken token expiresIn now c =
     c\<lparr>tokenCache := Some \<lparr>access_token = token, expires_at = now + expiresIn * 1000\<rparr>\<rparr>"

subsection \<open>Promises, activations and the world around one client\<close>

text \<open>
  The promise that one call of \<^verbatim>\<open>fetchOAuthToken()\<close> returns: pending while the call
  waits for the transport, then settled for good.
\<close>

datatype promise = Pending | Fulfilled string | Rejected thrown

text \<open>
  One call of \<^verbatim>\<open>authHeaders()\<close>: suspended in \<^verbatim>\<open>getOAuthToken\<close> at an
  \<^verbatim>\<open>await this.refreshPromise\<close>, or returned. \<open>Awaiting p True\<close> is the call that
  created promise \<open>p\<close> and waits inside \<^verbatim>\<open>try\<close>/\<^verbatim>\<open>finally\<close>; \<open>Awaiting p False\<close> is a
  call that found \<open>p\<close> in \<^verbatim>\<open>this.refreshPromise\<close> and returns what it settles to.
\<close>

datatype activation =
    Awaiting nat bool
  | Returned "thrown + Headers"

text \<open>
  The client, the store of promises (a promise's address is its index), the
  invocations of the injected \<^verbatim>\<open>fetch\<close> made for tokens, in order, and the calls of
  \<^verbatim>\<open>authHeaders()\<close> made so far, in order.
\<close>

record world =
  client :: APIClient
  promises :: "promise list"
  fetchLog :: "FetchCall list"
  activations :: "activation list"

definition new_world :: "APIClient \<Rightarrow> world" where
  "new_world c = \<lparr>client = c, promises = [], fetchLog = [], activations = []\<rparr>"

subsection \<open>Token exchange\<close>

text \<open>The request of \<^verbatim>\<open>fetchOAuthToken\<close>.\<close>

definition token_request :: "OAuthCredentials \<Rightarrow> FetchCall" where
  "token_request cr =
     \<lparr>url = (case identity_url cr of
               None \<Rightarrow> ''https://www.r2clive.com/identity''
             | Some u \<Rightarrow> u) @ ''/connect/token'',
      method_i = Some ''POST'',
      headers_i = [(''Content-Type'', ''application/x-www-form-urlencoded''),
                   (''Accept'', ''application/json'')],
      body_i = Some (BodyString (URLSearchParams_toString
                 [(''username'', username cr),
                  (''password'', password cr),
                  (''siteid'', site_id cr),
                  (''grant_type'', ''password''),
                  (''client_id'', client_id cr),
                  (''client_secret'', client_secret cr),
                  (''scope'', ''openid'')]))\<rparr>"

text \<open>
  \<^verbatim>\<open>fetchOAuthToken\<close> from its entry to \<^verbatim>\<open>await this.fetch(...)\<close>: the promise it
  returns is new in the store, rejected at once without credentials, pending on the
  transport otherwise.
\<close>

definition fetchOAuthToken_call :: "world \<Rightarrow> world \<times> nat" where
  "fetchOAuthToken_call w =
     (case oauthCredentials (client w) of
        None \<Rightarrow>
          (w\<lparr>promises := promises w @
                [Rejected (R2C (R2CError_new ''OAuth credentials not configured''))]\<rparr>,
           length (promises w))
      | Some cr \<Rightarrow>
          (w\<lparr>promises := promises w @ [Pending],
             fetchLog := fetchLog w @ [token_request cr]\<rparr>,
           length (promises w)))"

text \<open>
  \<^verbatim>\<open>fetchOAuthToken\<close> from the settlement of \<^verbatim>\<open>this.fetch\<close> to its end, at
  \<^verbatim>\<open>Date.now() = now\<close>: the client after it and the state its promise settles to.
  The waits for \<^verbatim>\<open>response.text()\<close> and \<^verbatim>\<open>response.json()\<close> lie inside this segment:
  nothing of the client is read or written before them, so whatever runs during
  those waits has the effect it would have before the segment. Past the test of
  the two members both are present, and the last alternative of the inner
  \<open>case\<close> is never taken.
\<close>

definition fetchOAuthToken_resume ::
  "thrown + TokenData Response \<Rightarrow> int \<Rightarrow> APIClient \<Rightarrow> APIClient \<times> promise" where
  "fetchOAuthToken_resume settled now c =
     (case settled of
        Inl e \<Rightarrow> (c, Rejected e)
      | Inr response \<Rightarrow>
          if \<not> ok response then
            (c, Rejected (R2C
               \<lparr>message = ''Authentication failed: '' @ string_of_nat (status_r response)
                            @ '' '' @ text_r response,
                status = Some (status_r response),
                headers = Some (headers_r response),
                error = Some (text_r response)\<rparr>))
          else
            (case json_r response of
               None \<Rightarrow> (c, Rejected (Foreign ''SyntaxError''))
             | Some data \<Rightarrow>
                 if \<not> truthy_string (access_token_d data) \<or> \<not> truthy_number (expires_in data)
                 then (c, Rejected (R2C (R2CError_new ''Invalid token response from server'')))
                 else
                   (case (access_token_d data, expires_in data) of
                      (Some a, Some e) \<Rightarrow>
                        (c\<lparr>tokenCache :=
                             Some \<lparr>access_token = a, expires_at = now + e * 1000\<rparr>\<rparr>,
                         Fulfilled a)
                    | _ \<Rightarrow> (c, Rejected (R2C (R2CError_new ''Invalid token response from server''))))))"

subsection \<open>Token resolution\<close>

text \<open>
  \<^verbatim>\<open>getOAuthToken\<close> from its entry to its first \<^verbatim>\<open>await\<close> or \<^verbatim>\<open>return\<close>, at
  \<^verbatim>\<open>Date.now() = now\<close>: the token from the cache, or the promise awaited and whether
  this call created it.
\<close>

definition getOAuthToken_call :: "int \<Rightarrow> world \<Rightarrow> world \<times> (string + nat \<times> bool)" where
  "getOAuthToken_call now w =
     (let refresh =
        (case refreshPromise (client w) of
           Some p \<Rightarrow> (w, Inr (p, False))
         | None \<Rightarrow>
             (case fetchOAuthToken_call w of
                (w', p) \<Rightarrow> (w'\<lparr>client := (client w')\<lparr>refreshPromise := Some p\<rparr>\<rparr>, Inr (p, True))))
      in case tokenCache (client w) of
           None \<Rightarrow> refresh
         | Some tc \<Rightarrow> if isTokenValid (client w) now then (w, Inl (access_token tc)) else refresh)"

text \<open>
  \<^verbatim>\<open>getOAuthToken\<close> after \<^verbatim>\<open>await this.refreshPromise\<close>: \<open>None\<close> while the promise is
  pending; the creator of the promise runs \<^verbatim>\<open>finally { this.refreshPromise = null }\<close>.
\<close>

definition getOAuthToken_resume ::
  "bool \<Rightarrow> promise \<Rightarrow> APIClient \<Rightarrow> (APIClient \<times> (thrown + string)) option" where
  "getOAuthToken_resume creator pr c =
     (case pr of
        Pending \<Rightarrow> None
      | Fulfilled token \<Rightarrow> Some (if creator then c\<lparr>refreshPromise := None\<rparr> else c, Inr token)
      | Rejected e \<Rightarrow> Some (if creator then c\<lparr>refreshPromise := None\<rparr> else c, Inl e))"

text \<open>\<^verbatim>\<open>authHeaders\<close> once the token is there (or its wait has thrown).\<close>

definition authHeaders_resume :: "thrown + string \<Rightarrow> thrown + Headers" where
  "authHeaders_resume r =
     (case r of
        Inl e \<Rightarrow> Inl e
      | Inr token \<Rightarrow> Inr [(''Authorization'', ''Bearer '' @ token)])"

text \<open>\<^verbatim>\<open>authHeaders\<close> from its entry: the call is appended to the activations.\<close>

definition authHeaders_call :: "int \<Rightarrow> world \<Rightarrow> world" where
  "authHeaders_call now w =
     (if oauthCredentials (client w) \<noteq> None then
        (case getOAuthToken_call now w of
           (w', Inl token) \<Rightarrow>
             w'\<lparr>activations := activations w' @ [Returned (authHeaders_resume (Inr token))]\<rparr>
         | (w', Inr (p, creator)) \<Rightarrow>
             w'\<lparr>activations := activations w' @ [Awaiting p creator]\<rparr>)
      else
        (case bearerToken (client w) of
           Some t \<Rightarrow>
             if t \<noteq> [] then
               w\<lparr>activations := activations w @ [Returned (Inr [(''Authorization'', ''Bearer '' @ t)])]\<rparr>
             else
               w\<lparr>activations := activations w @ [Returned (Inl (R2C (R2CError_new
                 ''No authentication configured. Provide either bearerToken or oauthCredentials.'')))]\<rparr>
         | None \<Rightarrow>
             w\<lparr>activations := activations w @ [Returned (Inl (R2C (R2CError_new
               ''No authentication configured. Provide either bearerToken or oauthCredentials.'')))]\<rparr>))"

subsection \<open>The transition system\<close>

text \<open>
  \<^item> \<open>Call now\<close>: \<^verbatim>\<open>authHeaders()\<close> is called at time \<open>now\<close>.
  \<^item> \<open>Settle p r now\<close>: the transport settles the \<^verbatim>\<open>fetch\<close> that promise \<open>p\<close> waits
    for, with a rejection (\<open>Inl\<close>) or a response (\<open>Inr\<close>), and \<^verbatim>\<open>fetchOAuthToken\<close> runs
    to its end at time \<open>now\<close>.
  \<^item> \<open>Resume i\<close>: the wait of the \<open>i\<close>-th call is over and the call runs to its end,
    first in \<^verbatim>\<open>getOAuthToken\<close>, then in \<^verbatim>\<open>authHeaders\<close>, which only wraps the token.
  \<^item> \<open>SetToken token expiresIn now\<close> and \<open>ClearToken\<close>: the public methods.
  An event that cannot happen in a world gives \<open>None\<close>: a settlement for a promise
  that is not pending, a resumption of a call that has returned or whose promise is
  still pending. JavaScript runs one segment at a time, so a run of the client is a
  list of events; the waiters of a promise may resume in any order here, which
  includes the order of the event loop.
\<close>

datatype event =
    Call int
  | Settle nat "thrown + TokenData Response" int
  | Resume nat
  | SetToken string int int
  | ClearToken

fun step :: "event \<Rightarrow> world \<Rightarrow> world option" where
  "step (Call now) w = Some (authHeaders_call now w)"
| "step (Settle p r now) w =
     (if p < length (promises w) \<and> promises w ! p = Pending then
        (case fetchOAuthToken_resume r now (client w) of
           (c', pr) \<Rightarrow> Some (w\<lparr>client := c', promises := (promises w)[p := pr]\<rparr>))
      else None)"
| "step (Resume i) w =
     (if i < length (activations w) then
        (case activations w ! i of
           Returned r \<Rightarrow> None
         | Awaiting p creator \<Rightarrow>
             if p < length (promises w) then
               (case getOAuthToken_resume creator (promises w ! p) (client w) of
                  None \<Rightarrow> None
                | Some (c', r) \<Rightarrow>
                    Some (w\<lparr>client := c',
                            activations := (activations w)[i := Returned (authHeaders_resume r)]\<rparr>))
             else None)
      else None)"
| "step (SetToken token expiresIn now) w = Some (w\<lparr>client := setToken token expiresIn now (client w)\<rparr>)"
| "step ClearToken w = Some (w\<lparr>client := clearToken (client w)\<rparr>)"

fun run :: "event list \<Rightarrow> world \<Rightarrow> world option" where
  "run [] w = Some w"
| "run (e # es) w = (case step e w of None \<Rightarrow> None | Some w' \<Rightarrow> run es w')"

subsection \<open>Request dispatch\<close>

text \<open>\<^verbatim>\<open>defaultHeaders\<close> once \<^verbatim>\<open>authHeaders()\<close> has settled.\<close>

definition defaultHeaders_resume :: "thrown + Headers \<Rightarrow> thrown + Headers" where
  "defaultHeaders_resume auth =
     (case auth of
        Inl e \<Rightarrow> Inl e
      | Inr authHeaders \<Rightarrow> Inr (spread [(''Content-Type'', ''application/json'')] authHeaders))"

text \<open>\<^verbatim>\<open>makeRequest\<close>: the URL, built before the first \<^verbatim>\<open>await\<close>.\<close>

definition makeRequest_url :: "APIClient \<Rightarrow> RequestOptions \<Rightarrow> string" where
  "makeRequest_url c options =
     baseURL c @ path options @
     (case query options of
        None \<Rightarrow> []
      | Some q \<Rightarrow>
          (let queryString = URLSearchParams_toString
                 (List.map_filter
                    (\<lambda>(k, v). case v of
                                 None \<Rightarrow> None
                               | Some JNull \<Rightarrow> None
                               | Some x \<Rightarrow> Some (k, String_js x)) q)
           in if queryString \<noteq> [] then ''?'' @ queryString else []))"

text \<open>
  \<^verbatim>\<open>makeRequest\<close> from the settlement of \<^verbatim>\<open>await this.defaultHeaders()\<close>, given as the
  outcome \<open>auth\<close> of \<^verbatim>\<open>authHeaders()\<close>, to the invocation of \<^verbatim>\<open>this.fetch\<close>: the
  exception that escapes, or the call made.
\<close>

definition makeRequest_fetch ::
  "APIClient \<Rightarrow> RequestOptions \<Rightarrow> thrown + Headers \<Rightarrow> thrown + FetchCall" where
  "makeRequest_fetch c options auth =
     (case defaultHeaders_resume auth of
        Inl e \<Rightarrow> Inl e
      | Inr defaultHeaders \<Rightarrow>
          Inr \<lparr>url = makeRequest_url c options,
               method_i = method_o options,
               headers_i = spread defaultHeaders
                             (case headers_o options of None \<Rightarrow> [] | Some h \<Rightarrow> h),
               body_i = (if truthy (body options)
                         then map_option JSON_stringify (body options)
                         else None)\<rparr>)"

text \<open>
  \<^verbatim>\<open>parseResponse\<close>, with the reads of the body it makes. The three results are
  \<^verbatim>\<open>null\<close>, the parsed JSON and the raw text.
\<close>

datatype BodyRead = ReadText | ReadJson

datatype 'a Parsed = Null | Json 'a | RawText string

definition parseResponse :: "'a Response \<Rightarrow> BodyRead list \<times> (thrown + 'a Parsed)" where
  "parseResponse response =
     (if \<not> ok response then
        ([ReadText],
         Inl (R2C
           \<lparr>message = ''HTTP Error '' @ string_of_nat (status_r response) @ '': ''
                        @ (if text_r response \<noteq> [] then text_r response else statusText response),
            status = Some (status_r response),
            headers = Some (headers_r response),
            error = Some (text_r response)\<rparr>))
      else if status_r response = 204 then ([], Inr Null)
      else if (case Headers_get (headers_r response) ''content-type'' of
                 None \<Rightarrow> False
               | Some contentType \<Rightarrow> includes_js contentType ''application/json'')
      then
        (case json_r response of
           None \<Rightarrow> ([ReadJson], Inl (Foreign ''SyntaxError''))
         | Some v \<Rightarrow> ([ReadJson], Inr (Json v)))
      else ([ReadText], Inr (RawText (text_r response))))"

text \<open>\<^verbatim>\<open>makeRequest\<close> from the settlement of \<^verbatim>\<open>this.fetch\<close> to its end.\<close>

definition makeRequest_resume ::
  "thrown + 'a Response \<Rightarrow> BodyRead list \<times> (thrown + 'a Parsed)" where
  "makeRequest_resume settled =
     (case settled of
        Inl e \<Rightarrow> ([], Inl e)
      | Inr response \<Rightarrow> parseResponse response)"

subsection \<open>Auxiliary notions and the inputs of the test suite\<close>


text \<open>The credentials, clients and mocked responses of \<^verbatim>\<open>tests/client.test.ts\<close>.\<close>

definition example_credentials :: OAuthCredentials where
  "example_credentials =
     \<lparr>username = ''user'', password = ''pass'', site_id = ''site'',
      client_id = ''client'', client_secret = ''secret'', identity_url = None\<rparr>"

definition example_oauth_client :: APIClient where
  "example_oauth_client =
     APIClient_new (Some ''https://test-api.r2clive.com'') None (Some example_credentials)"


definition example_bearer_client :: APIClient where
  "example_bearer_client =
     APIClient_new (Some ''https://test-api.r2clive.com'') (Some ''test-token'') None"

text \<open>\<^verbatim>\<open>client.post('/test', b)\<close>.\<close>

definition example_post :: "json option \<Rightarrow> RequestOptions" where
  "example_post b =
     \<lparr>path = ''/test'', query = None, body = b, method_o = Some ''POST'', headers_o = None\<rparr>"

definition example_401 :: "TokenData Response" where
  "example_401 =
     \<lparr>ok = False, status_r = 401, statusText = ''Unauthorized'', headers_r = [],
      text_r = ''bad creds'', json_r = None\<rparr>"

definition example_404 :: "json Response" where
  "example_404 =
     \<lparr>ok = False, status_r = 404, statusText = ''Not Found'', headers_r = [],
      text_r = ''Resource not found'', json_r = None\<rparr>"

definition example_204 :: "json Response" where
  "example_204 =
     \<lparr>ok = True, status_r = 204, statusText = ''No Content'',
      headers_r = [(''content-type'', ''application/json'')],
      text_r = ''[1]'', json_r = Some (JArr [JNum 1])\<rparr>"

text \<open>
  The worlds of a client with a static bearer token \<open>tok\<close>: no promise, no
  invocation of the transport, and every call returned with the header of \<open>tok\<close>.
\<close>

definition static_inv :: "string \<Rightarrow> world \<Rightarrow> bool" where
  "static_inv tok w \<longleftrightarrow>
     oauthCredentials (client w) = None \<and> bearerToken (client w) = Some tok \<and> tok \<noteq> []
     \<and> refreshPromise (client w) = None \<and> promises w = [] \<and> fetchLog w = []
     \<and> (\<forall>a \<in> set (activations w). a = Returned (Inr [(''Authorization'', ''Bearer '' @ tok)]))"

section \<open>Properties\<close>

subsection \<open>Runs\<close>

lemma run_append:
  "run (xs @ ys) w = (case run xs w of None \<Rightarrow> None | Some w' \<Rightarrow> run ys w')"
  by (induction xs arbitrary: w) (auto split: option.splits)

lemma isTokenValid_refreshPromise [simp]:
  "isTokenValid (c\<lparr>refreshPromise := x\<rparr>) now = isTokenValid c now"
  by (simp add: isTokenValid_def)

subsection \<open>One call of \<open>authHeaders\<close> in OAuth mode\<close>





subsection \<open>The end of an exchange\<close>







subsection \<open>Concurrent callers share one exchange\<close>



subsection \<open>The validity rule of the cache\<close>







subsection \<open>A token installed by hand\<close>







subsection \<open>A failed exchange and the cache\<close>

lemma fetchOAuthToken_resume_cases:
  assumes "fetchOAuthToken_resume r t c = (c', pr)"
  shows "(c' = c \<and> (\<exists>e. pr = Rejected e)
           \<and> (\<forall>resp d. r = Inr resp \<and> ok resp \<and> json_r resp = Some d \<longrightarrow>
                 pr = Rejected (R2C (R2CError_new ''Invalid token response from server''))
                 \<and> (access_token_d d = None \<or> access_token_d d = Some []
                     \<or> expires_in d = None \<or> expires_in d = Some 0)))
       \<or> (\<exists>resp d a e. r = Inr resp \<and> ok resp \<and> json_r resp = Some d
              \<and> access_token_d d = Some a \<and> a \<noteq> [] \<and> expires_in d = Some e \<and> e \<noteq> 0
              \<and> c' = c\<lparr>tokenCache := Some \<lparr>access_token = a, expires_at = t + e * 1000\<rparr>\<rparr>
              \<and> pr = Fulfilled a)"
proof (cases r)
  case (Inl x)
  then show ?thesis using assms by (auto simp add: fetchOAuthToken_resume_def)
next
  case (Inr resp)
  show ?thesis
  proof (cases "ok resp")
    case False
    then show ?thesis using assms Inr by (auto simp add: fetchOAuthToken_resume_def)
  next
    case True
    show ?thesis
    proof (cases "json_r resp")
      case None
      then show ?thesis using assms Inr True by (auto simp add: fetchOAuthToken_resume_def)
    next
      case (Some d)
      show ?thesis
      proof (cases "access_token_d d")
        case None
        then show ?thesis using assms Inr True Some
          by (auto simp add: fetchOAuthToken_resume_def truthy_string_def)
      next
        case a: (Some a)
        show ?thesis
        proof (cases "expires_in d")
          case None
          then show ?thesis using assms Inr True Some a
            by (auto simp add: fetchOAuthToken_resume_def truthy_number_def)
        next
          case e: (Some e)
          show ?thesis
          proof (cases "a = [] \<or> e = 0")
            case True
            then show ?thesis using assms Inr \<open>ok resp\<close> Some a e
              by (auto simp add: fetchOAuthToken_resume_def truthy_string_def truthy_number_def)
          next
            case False
            then show ?thesis using assms Inr \<open>ok resp\<close> Some a e
              by (auto simp add: fetchOAuthToken_resume_def truthy_string_def truthy_number_def)
          qed
        qed
      qed
    qed
  qed
qed

text \<open>
  Claim C9. When the transport settles the exchange that promise \<open>p\<close> waits for, the
  cache is left as it was if the response is not \<^verbatim>\<open>ok\<close>, and also if it is \<^verbatim>\<open>ok\<close>
  with a body whose \<^verbatim>\<open>access_token\<close> is absent or empty or whose \<^verbatim>\<open>expires_in\<close> is absent
  or zero; in both cases the promise is rejected. More generally the cache is
  unchanged whenever the promise is rejected, and it changes only when the response
  is \<^verbatim>\<open>ok\<close> with a non-empty \<^verbatim>\<open>access_token\<close> \<open>a\<close> and a non-zero \<^verbatim>\<open>expires_in\<close> \<open>e\<close>, to the
  token \<open>a\<close> expiring at \<open>t + 1000 e\<close>.
\<close>

theorem failed_exchange_keeps_cache:
  assumes "p < length (promises w)" and "promises w ! p = Pending"
  shows "\<exists>w'. step (Settle p r t) w = Some w'
     \<and> (\<forall>resp. r = Inr resp \<and> \<not> ok resp \<longrightarrow>
           tokenCache (client w') = tokenCache (client w)
           \<and> (\<exists>e. promises w' ! p = Rejected e))
     \<and> (\<forall>resp d. r = Inr resp \<and> ok resp \<and> json_r resp = Some d
           \<and> (access_token_d d = None \<or> access_token_d d = Some []
              \<or> expires_in d = None \<or> expires_in d = Some 0) \<longrightarrow>
           tokenCache (client w') = tokenCache (client w)
           \<and> promises w' ! p = Rejected (R2C (R2CError_new ''Invalid token response from server'')))
     \<and> ((\<exists>e. promises w' ! p = Rejected e) \<longrightarrow> tokenCache (client w') = tokenCache (client w))
     \<and> (tokenCache (client w') \<noteq> tokenCache (client w) \<longrightarrow>
           (\<exists>resp d a e. r = Inr resp \<and> ok resp \<and> json_r resp = Some d
              \<and> access_token_d d = Some a \<and> a \<noteq> [] \<and> expires_in d = Some e \<and> e \<noteq> 0
              \<and> tokenCache (client w') = Some \<lparr>access_token = a, expires_at = t + e * 1000\<rparr>
              \<and> promises w' ! p = Fulfilled a))"
proof -
  obtain c' pr where f: "fetchOAuthToken_resume r t (client w) = (c', pr)"
    by (cases "fetchOAuthToken_resume r t (client w)")
  define w' where "w' = w\<lparr>client := c', promises := (promises w)[p := pr]\<rparr>"
  have s: "step (Settle p r t) w = Some w'" using assms f by (simp add: w'_def)
  have pr: "promises w' ! p = pr" using assms by (simp add: w'_def)
  have c: "client w' = c'" by (simp add: w'_def)
  note cases = fetchOAuthToken_resume_cases[OF f]
  have A: "\<forall>resp. r = Inr resp \<and> \<not> ok resp \<longrightarrow>
           tokenCache (client w') = tokenCache (client w)
           \<and> (\<exists>e. promises w' ! p = Rejected e)"
    unfolding pr c using cases by auto
  have B: "\<forall>resp d. r = Inr resp \<and> ok resp \<and> json_r resp = Some d
           \<and> (access_token_d d = None \<or> access_token_d d = Some []
              \<or> expires_in d = None \<or> expires_in d = Some 0) \<longrightarrow>
           tokenCache (client w') = tokenCache (client w)
           \<and> promises w' ! p = Rejected (R2C (R2CError_new ''Invalid token response from server''))"
    unfolding pr c using cases by auto
  have C: "(\<exists>e. promises w' ! p = Rejected e) \<longrightarrow> tokenCache (client w') = tokenCache (client w)"
    unfolding pr c using cases by auto
  have D: "tokenCache (client w') \<noteq> tokenCache (client w) \<longrightarrow>
           (\<exists>resp d a e. r = Inr resp \<and> ok resp \<and> json_r resp = Some d
              \<and> access_token_d d = Some a \<and> a \<noteq> [] \<and> expires_in d = Some e \<and> e \<noteq> 0
              \<and> tokenCache (client w') = Some \<lparr>access_token = a, expires_at = t + e * 1000\<rparr>
              \<and> promises w' ! p = Fulfilled a)"
    unfolding pr c using cases by auto
  show ?thesis
  proof (rule exI[of _ w'], intro conjI)
  qed (fact s A B C D)+
qed

text \<open>
  A token inside the 60-second buffer, a refresh, and the answer 401: the caller gets
  the error and the old token is still cached.
\<close>

theorem failed_exchange_keeps_cache_witness:
  "run [SetToken ''old'' 60 0, Call 0, Settle 0 (Inr example_401) 5, Resume 0]
       (new_world example_oauth_client) =
     Some \<lparr>client = example_oauth_client
             \<lparr>tokenCache := Some \<lparr>access_token = ''old'', expires_at = 60000\<rparr>\<rparr>,
           promises = [Rejected (R2C \<lparr>message = ''Authentication failed: 401 bad creds'',
                                       status = Some 401, headers = Some [],
                                       error = Some ''bad creds''\<rparr>)],
           fetchLog = [token_request example_credentials],
           activations = [Returned (Inl (R2C \<lparr>message = ''Authentication failed: 401 bad creds'',
                                               status = Some 401, headers = Some [],
                                               error = Some ''bad creds''\<rparr>))]\<rparr>"
proof -
  define w where "w = \<lparr>client = example_oauth_client
             \<lparr>tokenCache := Some \<lparr>access_token = ''old'', expires_at = 60000\<rparr>,
              refreshPromise := Some 0\<rparr>,
           promises = [Pending],
           fetchLog = [token_request example_credentials],
           activations = [Awaiting 0 True]\<rparr>"
  have before: "run [SetToken ''old'' 60 0, Call 0] (new_world example_oauth_client) = Some w"
    by (simp add: w_def new_world_def example_oauth_client_def APIClient_new_def setToken_def
        authHeaders_call_def getOAuthToken_call_def fetchOAuthToken_call_def isTokenValid_def
        TOKEN_BUFFER_MS_def Let_def)
  have p: "0 < length (promises w)" "promises w ! 0 = Pending"
    by (simp_all add: w_def)
  from failed_exchange_keeps_cache[OF p, of "Inr example_401" 5]
  obtain w' where w': "step (Settle 0 (Inr example_401) 5) w = Some w'"
    and keep: "\<forall>resp. Inr example_401 = Inr resp \<and> \<not> ok resp \<longrightarrow>
           tokenCache (client w') = tokenCache (client w)
           \<and> (\<exists>e. promises w' ! 0 = Rejected e)"
    by blast
  have "\<not> ok example_401" by (simp add: example_401_def)
  with keep have kept: "tokenCache (client w') = Some \<lparr>access_token = ''old'', expires_at = 60000\<rparr>"
    by (simp add: w_def)
  have m: "string_of_nat 401 = ''401''" by code_simp
  have "step (Settle 0 (Inr example_401) 5) w =
      Some (w\<lparr>promises := [Rejected (R2C \<lparr>message = ''Authentication failed: 401 bad creds'',
                                       status = Some 401, headers = Some [],
                                       error = Some ''bad creds''\<rparr>)]\<rparr>)"
    by (simp add: w_def fetchOAuthToken_resume_def example_401_def m)
  with w' have "w' = w\<lparr>promises := [Rejected (R2C \<lparr>message = ''Authentication failed: 401 bad creds'',
                                       status = Some 401, headers = Some [],
                                       error = Some ''bad creds''\<rparr>)]\<rparr>"
    by simp
  then have "run [Resume 0] w' =
     Some \<lparr>client = example_oauth_client
             \<lparr>tokenCache := Some \<lparr>access_token = ''old'', expires_at = 60000\<rparr>\<rparr>,
           promises = [Rejected (R2C \<lparr>message = ''Authentication failed: 401 bad creds'',
                                       status = Some 401, headers = Some [],
                                       error = Some ''bad creds''\<rparr>)],
           fetchLog = [token_request example_credentials],
           activations = [Returned (Inl (R2C \<lparr>message = ''Authentication failed: 401 bad creds'',
                                               status = Some 401, headers = Some [],
                                               error = Some ''bad creds''\<rparr>))]\<rparr>"
    using kept
    by (simp add: w_def getOAuthToken_resume_def authHeaders_resume_def example_oauth_client_def
        APIClient_new_def)
  then show ?thesis
    using run_append[of "[SetToken ''old'' 60 0, Call 0]" "[Settle 0 (Inr example_401) 5, Resume 0]"
        "new_world example_oauth_client"] before w'
    by simp
qed

subsection \<open>Errors of responses that are not \<open>ok\<close>\<close>

lemma includes_js_sublist: "includes_js xs sub \<longleftrightarrow> sublist sub xs"
  by (induction xs) (auto simp add: sublist_Cons_right)

lemma includes_js_middle: "includes_js (pre @ sub @ post) sub"
  by (simp add: includes_js_sublist sublist_appendI)

text \<open>
  Claim C3. A response that is not \<^verbatim>\<open>ok\<close> makes \<^verbatim>\<open>parseResponse\<close> throw, and makes
  \<^verbatim>\<open>fetchOAuthToken\<close> reject its promise with, an \<^verbatim>\<open>R2CError\<close> whose \<open>status\<close> is the
  response's status, whose \<open>headers\<close> are the response's headers and whose \<open>error\<close> is
  the body's text as read; the message is the fixed prefix, the status in decimal
  and the text (for \<^verbatim>\<open>parseResponse\<close> the status text when the body is empty), so it
  includes the status. In particular status 401 with the body \<^verbatim>\<open>bad creds\<close> gives
  \<open>status = Some 401\<close> and \<open>error = Some ''bad creds''\<close>.
\<close>

theorem non_ok_response_gives_normalized_error:
  "(\<not> ok r \<longrightarrow>
      (\<exists>e. snd (parseResponse r) = Inl (R2C e)
         \<and> status e = Some (status_r r) \<and> headers e = Some (headers_r r)
         \<and> error e = Some (text_r r)
         \<and> message e = ''HTTP Error '' @ string_of_nat (status_r r) @ '': ''
                          @ (if text_r r = [] then statusText r else text_r r)
         \<and> includes_js (message e) (string_of_nat (status_r r))))
   \<and> (\<not> ok x \<longrightarrow>
      (\<exists>e. fetchOAuthToken_resume (Inr x) t c = (c, Rejected (R2C e))
         \<and> status e = Some (status_r x) \<and> headers e = Some (headers_r x)
         \<and> error e = Some (text_r x)
         \<and> message e = ''Authentication failed: '' @ string_of_nat (status_r x) @ '' '' @ text_r x
         \<and> includes_js (message e) (string_of_nat (status_r x))))
   \<and> (\<not> ok x \<and> status_r x = 401 \<and> text_r x = ''bad creds'' \<longrightarrow>
      (\<exists>e. snd (fetchOAuthToken_resume (Inr x) t c) = Rejected (R2C e)
         \<and> status e = Some 401 \<and> error e = Some ''bad creds''))"
proof (intro conjI impI)
  assume n: "\<not> ok r"
  let ?e = "\<lparr>message = ''HTTP Error '' @ string_of_nat (status_r r) @ '': ''
                          @ (if text_r r = [] then statusText r else text_r r),
             status = Some (status_r r), headers = Some (headers_r r),
             error = Some (text_r r)\<rparr>"
  have "snd (parseResponse r) = Inl (R2C ?e)"
    using n by (simp add: parseResponse_def)
  moreover have "includes_js (message ?e) (string_of_nat (status_r r))"
    using includes_js_middle[of "''HTTP Error ''" "string_of_nat (status_r r)"] by simp
  ultimately show "\<exists>e. snd (parseResponse r) = Inl (R2C e)
         \<and> status e = Some (status_r r) \<and> headers e = Some (headers_r r)
         \<and> error e = Some (text_r r)
         \<and> message e = ''HTTP Error '' @ string_of_nat (status_r r) @ '': ''
                          @ (if text_r r = [] then statusText r else text_r r)
         \<and> includes_js (message e) (string_of_nat (status_r r))"
    by (intro exI[of _ ?e]) simp
next
  assume n: "\<not> ok x"
  let ?e = "\<lparr>message = ''Authentication failed: '' @ string_of_nat (status_r x) @ '' '' @ text_r x,
             status = Some (status_r x), headers = Some (headers_r x),
             error = Some (text_r x)\<rparr>"
  have "fetchOAuthToken_resume (Inr x) t c = (c, Rejected (R2C ?e))"
    using n by (simp add: fetchOAuthToken_resume_def)
  moreover have "includes_js (message ?e) (string_of_nat (status_r x))"
    using includes_js_middle[of "''Authentication failed: ''" "string_of_nat (status_r x)"] by simp
  ultimately show "\<exists>e. fetchOAuthToken_resume (Inr x) t c = (c, Rejected (R2C e))
         \<and> status e = Some (status_r x) \<and> headers e = Some (headers_r x)
         \<and> error e = Some (text_r x)
         \<and> message e = ''Authentication failed: '' @ string_of_nat (status_r x) @ '' '' @ text_r x
         \<and> includes_js (message e) (string_of_nat (status_r x))"
    by (intro exI[of _ ?e]) simp
next
  assume n: "\<not> ok x \<and> status_r x = 401 \<and> text_r x = ''bad creds''"
  then show "\<exists>e. snd (fetchOAuthToken_resume (Inr x) t c) = Rejected (R2C e)
         \<and> status e = Some 401 \<and> error e = Some ''bad creds''"
    by (simp add: fetchOAuthToken_resume_def)
qed

text \<open>
  The test suite's 404 on a resource call, and a 401 with the body \<^verbatim>\<open>bad creds\<close> on
  the token endpoint.
\<close>

theorem non_ok_response_gives_normalized_error_witness:
  "parseResponse example_404 =
     ([ReadText], Inl (R2C \<lparr>message = ''HTTP Error 404: Resource not found'',
                            status = Some 404, headers = Some [],
                            error = Some ''Resource not found''\<rparr>))
   \<and> fetchOAuthToken_resume (Inr example_401) 5 example_oauth_client =
     (example_oauth_client,
      Rejected (R2C \<lparr>message = ''Authentication failed: 401 bad creds'',
                     status = Some 401, headers = Some [],
                     error = Some ''bad creds''\<rparr>))
   \<and> includes_js ''Authentication failed: 401 bad creds'' ''401''"
proof -
  have n4: "\<not> ok example_404" by (simp add: example_404_def)
  have n1: "\<not> ok example_401" by (simp add: example_401_def)
  have m4: "string_of_nat 404 = ''404''" by code_simp
  have m1: "string_of_nat 401 = ''401''" by code_simp
  from non_ok_response_gives_normalized_error[of example_404 example_401 5 example_oauth_client]
    n4 n1
  obtain e4 e1 where
    e4: "snd (parseResponse example_404) = Inl (R2C e4)"
      "status e4 = Some (status_r example_404)" "headers e4 = Some (headers_r example_404)"
      "error e4 = Some (text_r example_404)"
      "message e4 = ''HTTP Error '' @ string_of_nat (status_r example_404) @ '': ''
          @ (if text_r example_404 = [] then statusText example_404 else text_r example_404)"
    and e1: "fetchOAuthToken_resume (Inr example_401) 5 example_oauth_client =
        (example_oauth_client, Rejected (R2C e1))"
      "status e1 = Some (status_r example_401)" "headers e1 = Some (headers_r example_401)"
      "error e1 = Some (text_r example_401)"
      "message e1 = ''Authentication failed: '' @ string_of_nat (status_r example_401)
          @ '' '' @ text_r example_401"
      "includes_js (message e1) (string_of_nat (status_r example_401))"
    by blast
  have r4: "e4 = \<lparr>message = ''HTTP Error 404: Resource not found'',
                            status = Some 404, headers = Some [],
                            error = Some ''Resource not found''\<rparr>"
    using e4(2-5) by (cases e4) (simp add: example_404_def m4)
  have r1: "e1 = \<lparr>message = ''Authentication failed: 401 bad creds'',
                     status = Some 401, headers = Some [],
                     error = Some ''bad creds''\<rparr>"
    using e1(2-5) by (cases e1) (simp add: example_401_def m1)
  have "fst (parseResponse example_404) = [ReadText]"
    by (simp add: parseResponse_def example_404_def)
  with e4(1) r4 have a: "parseResponse example_404 =
     ([ReadText], Inl (R2C \<lparr>message = ''HTTP Error 404: Resource not found'',
                            status = Some 404, headers = Some [],
                            error = Some ''Resource not found''\<rparr>))"
    by (cases "parseResponse example_404") simp
  have c: "includes_js ''Authentication failed: 401 bad creds'' ''401''"
    using e1(6) r1 by (simp add: example_401_def m1)
  show ?thesis using a e1(1) r1 c by simp
qed

subsection \<open>A static bearer token\<close>

lemma static_call:
  assumes "oauthCredentials (client w) = None" "bearerToken (client w) = Some tok" "tok \<noteq> []"
  shows "step (Call now) w =
     Some (w\<lparr>activations := activations w @ [Returned (Inr [(''Authorization'', ''Bearer '' @ tok)])]\<rparr>)"
  using assms by (simp add: authHeaders_call_def)

lemma static_step:
  assumes "static_inv tok w" "step e w = Some w'"
  shows "static_inv tok w'"
proof (cases e)
  case (Call now)
  then show ?thesis using assms static_call[of w tok now]
    by (auto simp add: static_inv_def)
next
  case (Settle p r t)
  then show ?thesis using assms by (simp add: static_inv_def)
next
  case (Resume i)
  then show ?thesis using assms
    by (auto simp add: static_inv_def split: if_splits activation.splits)
next
  case (SetToken token expiresIn now)
  then show ?thesis using assms by (auto simp add: static_inv_def setToken_def)
next
  case ClearToken
  then show ?thesis using assms by (auto simp add: static_inv_def clearToken_def)
qed

lemma static_run:
  "static_inv tok w \<Longrightarrow> run es w = Some w' \<Longrightarrow> static_inv tok w'"
proof (induction es arbitrary: w)
  case Nil
  then show ?case by simp
next
  case (Cons e es)
  then show ?case by (auto split: option.splits dest: static_step)
qed

lemma static_calls:
  assumes "oauthCredentials (client w) = None" "bearerToken (client w) = Some tok" "tok \<noteq> []"
  shows "run (map Call nows) w =
    Some (w\<lparr>activations := activations w @ replicate (length nows)
            (Returned (Inr [(''Authorization'', ''Bearer '' @ tok)]))\<rparr>)"
  using assms
proof (induction nows arbitrary: w)
  case Nil
  then show ?case by simp
next
  case (Cons now nows)
  let ?r = "Returned (Inr [(''Authorization'', ''Bearer '' @ tok)])"
  let ?w1 = "w\<lparr>activations := activations w @ [?r]\<rparr>"
  have s: "step (Call now) w = Some ?w1"
    using Cons.prems static_call[of w tok now] by simp
  have "run (map Call nows) ?w1 =
    Some (?w1\<lparr>activations := activations ?w1 @ replicate (length nows) ?r\<rparr>)"
    by (rule Cons.IH) (use Cons.prems in simp_all)
  then show ?case using s by (simp add: replicate_app_Cons_same)
qed

lemma static_client:
  assumes "R2CClient opts = Inr c" "bearerToken_o opts = Some tok" "oauthCredentials_o opts = None"
  shows "tok \<noteq> [] \<and> bearerToken c = Some tok \<and> oauthCredentials c = None
     \<and> tokenCache c = None \<and> refreshPromise c = None"
  using assms
  by (auto simp add: R2CClient_def truthy_string_def APIClient_new_def split: if_splits)

text \<open>
  Claim C4. Let \<^verbatim>\<open>new R2CClient\<close> succeed on options with the bearer token \<open>tok\<close> and
  no OAuth credentials. Then any number of calls of \<^verbatim>\<open>authHeaders\<close>, one after the
  other, each return the header of \<open>tok\<close> at once and leave the client as it was
  built, with no token cache, no promise and no invocation of the transport.
  Moreover, in every world that any run of events reaches from the new client
  (calls, \<^verbatim>\<open>setToken\<close>, \<^verbatim>\<open>clearToken\<close>, in any order), the transport has never been
  invoked and every call has returned the header of \<open>tok\<close>, whatever the cache holds.
\<close>

theorem static_bearer_token_never_fetches:
  assumes "R2CClient opts = Inr c"
    and "bearerToken_o opts = Some tok"
    and "oauthCredentials_o opts = None"
  shows "run (map Call nows) (new_world c) =
      Some \<lparr>client = c, promises = [], fetchLog = [],
            activations = replicate (length nows)
              (Returned (Inr [(''Authorization'', ''Bearer '' @ tok)]))\<rparr>
    \<and> tokenCache c = None
    \<and> (\<forall>es w'. run es (new_world c) = Some w' \<longrightarrow>
          fetchLog w' = [] \<and> promises w' = []
          \<and> (\<forall>a \<in> set (activations w').
                a = Returned (Inr [(''Authorization'', ''Bearer '' @ tok)])))"
proof -
  note sc = static_client[OF assms]
  have "run (map Call nows) (new_world c) =
      Some ((new_world c)\<lparr>activations := activations (new_world c) @ replicate (length nows)
            (Returned (Inr [(''Authorization'', ''Bearer '' @ tok)]))\<rparr>)"
    by (rule static_calls) (use sc in \<open>simp_all add: new_world_def\<close>)
  then have 1: "run (map Call nows) (new_world c) =
      Some \<lparr>client = c, promises = [], fetchLog = [],
            activations = replicate (length nows)
              (Returned (Inr [(''Authorization'', ''Bearer '' @ tok)]))\<rparr>"
    by (simp add: new_world_def)
  have inv0: "static_inv tok (new_world c)"
    using sc by (simp add: static_inv_def new_world_def)
  have 2: "\<forall>es w'. run es (new_world c) = Some w' \<longrightarrow>
          fetchLog w' = [] \<and> promises w' = []
          \<and> (\<forall>a \<in> set (activations w').
                a = Returned (Inr [(''Authorization'', ''Bearer '' @ tok)]))"
  proof (intro allI impI)
    fix es w' assume "run es (new_world c) = Some w'"
    from static_run[OF inv0 this] show "fetchLog w' = [] \<and> promises w' = []
          \<and> (\<forall>a \<in> set (activations w').
                a = Returned (Inr [(''Authorization'', ''Bearer '' @ tok)]))"
      by (simp add: static_inv_def)
  qed
  from 1 sc 2 show ?thesis by blast
qed

text \<open>The scenario of the specification: \<^verbatim>\<open>bearerToken = 't1'\<close>, three calls.\<close>

theorem static_bearer_token_never_fetches_witness:
  "R2CClient \<lparr>bearerToken_o = Some ''t1'', oauthCredentials_o = None, baseURL_o = None\<rparr> =
     Inr (APIClient_new None (Some ''t1'') None)
   \<and> run (map Call [0, 1, 2]) (new_world (APIClient_new None (Some ''t1'') None)) =
     Some \<lparr>client = APIClient_new None (Some ''t1'') None, promises = [], fetchLog = [],
           activations = [Returned (Inr [(''Authorization'', ''Bearer t1'')]),
                          Returned (Inr [(''Authorization'', ''Bearer t1'')]),
                          Returned (Inr [(''Authorization'', ''Bearer t1'')])]\<rparr>"
proof -
  let ?opts = "\<lparr>bearerToken_o = Some ''t1'', oauthCredentials_o = None, baseURL_o = None\<rparr>"
  have built: "R2CClient ?opts = Inr (APIClient_new None (Some ''t1'') None)"
    by (simp add: R2CClient_def truthy_string_def APIClient_new_def)
  have b: "bearerToken_o ?opts = Some ''t1''" and o: "oauthCredentials_o ?opts = None"
    by simp_all
  from static_bearer_token_never_fetches[OF built b o, of "[0, 1, 2]"]
  have "run (map Call [0, 1, 2]) (new_world (APIClient_new None (Some ''t1'') None)) =
      Some \<lparr>client = APIClient_new None (Some ''t1'') None, promises = [], fetchLog = [],
            activations = replicate (length [0, 1, 2::int])
              (Returned (Inr [(''Authorization'', ''Bearer '' @ ''t1'')]))\<rparr>"
    by (rule conjunct1)
  then show ?thesis using built by (simp add: numeral_3_eq_3)
qed

subsection \<open>Status 204\<close>

text \<open>
  Claim C6. For every response that is \<^verbatim>\<open>ok\<close> with status 204, whatever its headers
  and its body, \<^verbatim>\<open>parseResponse\<close> returns \<^verbatim>\<open>null\<close> and reads the body neither as
  JSON nor as text; so does \<^verbatim>\<open>makeRequest\<close> when the transport delivers it.
\<close>

theorem no_content_gives_null:
  assumes "ok r" and "status_r r = 204"
  shows "parseResponse r = ([], Inr Null) \<and> makeRequest_resume (Inr r) = ([], Inr Null)"
  using assms by (simp add: parseResponse_def makeRequest_resume_def)

text \<open>A 204 that announces \<^verbatim>\<open>application/json\<close> and carries a JSON body.\<close>

theorem no_content_gives_null_witness:
  "Headers_get (headers_r example_204) ''content-type'' = Some ''application/json''
   \<and> json_r example_204 = Some (JArr [JNum 1])
   \<and> parseResponse example_204 = ([], Inr Null)
   \<and> makeRequest_resume (Inr example_204) = ([], Inr Null)"
proof -
  have h: "ok example_204" "status_r example_204 = 204"
    by (simp_all add: example_204_def)
  from no_content_gives_null[OF h] show ?thesis
    by (simp add: example_204_def Headers_get_def)
qed

subsection \<open>The request body\<close>

lemma truthy_Some:
  "truthy (Some b) \<longleftrightarrow> \<not> (b = JNull \<or> b = JBool False \<or> b = JNum 0 \<or> b = JStr [])"
  by (cases b) auto

text \<open>
  Claim C5 says that a body that was supplied is always sent. It is not: the bodies
  \<^verbatim>\<open>0\<close>, \<^verbatim>\<open>false\<close>, the empty string and \<^verbatim>\<open>null\<close> of a POST leave the wire request
  without a body.
\<close>

theorem falsy_body_is_omitted:
  "makeRequest_fetch example_bearer_client (example_post (Some (JNum 0)))
       (Inr [(''Authorization'', ''Bearer test-token'')]) =
     Inr \<lparr>url = ''https://test-api.r2clive.com/test'', method_i = Some ''POST'',
          headers_i = [(''Content-Type'', ''application/json''),
                       (''Authorization'', ''Bearer test-token'')],
          body_i = None\<rparr>
   \<and> makeRequest_fetch example_bearer_client (example_post (Some (JBool False)))
       (Inr [(''Authorization'', ''Bearer test-token'')]) =
     Inr \<lparr>url = ''https://test-api.r2clive.com/test'', method_i = Some ''POST'',
          headers_i = [(''Content-Type'', ''application/json''),
                       (''Authorization'', ''Bearer test-token'')],
          body_i = None\<rparr>
   \<and> makeRequest_fetch example_bearer_client (example_post (Some (JStr [])))
       (Inr [(''Authorization'', ''Bearer test-token'')]) =
     Inr \<lparr>url = ''https://test-api.r2clive.com/test'', method_i = Some ''POST'',
          headers_i = [(''Content-Type'', ''application/json''),
                       (''Authorization'', ''Bearer test-token'')],
          body_i = None\<rparr>
   \<and> makeRequest_fetch example_bearer_client (example_post (Some JNull))
       (Inr [(''Authorization'', ''Bearer test-token'')]) =
     Inr \<lparr>url = ''https://test-api.r2clive.com/test'', method_i = Some ''POST'',
          headers_i = [(''Content-Type'', ''application/json''),
                       (''Authorization'', ''Bearer test-token'')],
          body_i = None\<rparr>"
  by (simp add: makeRequest_fetch_def defaultHeaders_resume_def makeRequest_url_def spread_def
      example_bearer_client_def example_post_def APIClient_new_def truthy_string_def)

text \<open>
  Claim C5, amended. For every request that \<^verbatim>\<open>makeRequest\<close> dispatches, the wire
  request has no body when no body was supplied and when the supplied body is
  \<^verbatim>\<open>null\<close>, \<^verbatim>\<open>false\<close>, \<^verbatim>\<open>0\<close> or the empty string; for every other supplied body it
  carries the JSON encoding of that body (the empty object and the empty array
  included).
\<close>

theorem truthy_body_is_sent:
  "\<exists>f. makeRequest_fetch c opts (Inr h) = Inr f
     \<and> body_i f =
         (case body opts of
            None \<Rightarrow> None
          | Some b \<Rightarrow>
              if b = JNull \<or> b = JBool False \<or> b = JNum 0 \<or> b = JStr [] then None
              else Some (JSON_stringify b))"
  by (cases "body opts")
     (simp_all add: makeRequest_fetch_def defaultHeaders_resume_def truthy_Some)

text \<open>The test suite's POST of the object \<^verbatim>\<open>{ name: 'Test' }\<close>.\<close>

theorem truthy_body_is_sent_witness:
  "makeRequest_fetch example_bearer_client (example_post (Some (JObj [(''name'', JStr ''Test'')])))
       (Inr [(''Authorization'', ''Bearer test-token'')]) =
     Inr \<lparr>url = ''https://test-api.r2clive.com/test'', method_i = Some ''POST'',
          headers_i = [(''Content-Type'', ''application/json''),
                       (''Authorization'', ''Bearer test-token'')],
          body_i = Some (JSON_stringify (JObj [(''name'', JStr ''Test'')]))\<rparr>
   \<and> body_i \<lparr>url = ''https://test-api.r2clive.com/test'', method_i = Some ''POST'',
          headers_i = [(''Content-Type'', ''application/json''),
                       (''Authorization'', ''Bearer test-token'')],
          body_i = Some (JSON_stringify (JObj [(''name'', JStr ''Test'')]))\<rparr>
       = Some (JSON_stringify (JObj [(''name'', JStr ''Test'')]))"
proof -
  from truthy_body_is_sent[of example_bearer_client
      "example_post (Some (JObj [(''name'', JStr ''Test'')]))"
      "[(''Authorization'', ''Bearer test-token'')]"]
  obtain f where f: "makeRequest_fetch example_bearer_client
        (example_post (Some (JObj [(''name'', JStr ''Test'')])))
        (Inr [(''Authorization'', ''Bearer test-token'')]) = Inr f"
    and b: "body_i f = Some (JSON_stringify (JObj [(''name'', JStr ''Test'')]))"
    by (auto simp add: example_post_def)
  have "makeRequest_fetch example_bearer_client
        (example_post (Some (JObj [(''name'', JStr ''Test'')])))
        (Inr [(''Authorization'', ''Bearer test-token'')]) =
     Inr \<lparr>url = ''https://test-api.r2clive.com/test'', method_i = Some ''POST'',
          headers_i = [(''Content-Type'', ''application/json''),
                       (''Authorization'', ''Bearer test-token'')],
          body_i = Some (JSON_stringify (JObj [(''name'', JStr ''Test'')]))\<rparr>"
    by (simp add: makeRequest_fetch_def defaultHeaders_resume_def makeRequest_url_def spread_def
      example_bearer_client_def example_post_def APIClient_new_def truthy_string_def)
  with f b show ?thesis by simp
qed

subsection \<open>Credentials at construction\<close>

text \<open>
  Claim C7 says that construction succeeds exactly when one and only one credential
  form is supplied. It does not: with the empty string as \<^verbatim>\<open>bearerToken\<close> and no
  OAuth credentials one form is supplied and construction fails; with the empty
  string and OAuth credentials both are supplied and construction succeeds.
\<close>

theorem empty_bearerToken_breaks_exactly_one:
  "R2CClient \<lparr>bearerToken_o = Some [], oauthCredentials_o = None, baseURL_o = None\<rparr> =
     Inl (R2C \<lparr>message = ''Either bearerToken or oauthCredentials is required'',
               status = None, headers = None, error = None\<rparr>)
   \<and> R2CClient \<lparr>bearerToken_o = Some [], oauthCredentials_o = Some example_credentials,
                 baseURL_o = None\<rparr> =
     Inr \<lparr>baseURL = ''https://www.r2clive.com/api/Jobsheet/2'', bearerToken = None,
          oauthCredentials = Some example_credentials, tokenCache = None,
          refreshPromise = None\<rparr>"
  by (simp add: R2CClient_def truthy_string_def APIClient_new_def R2CError_new_def)

text \<open>
  Claim C7, amended. Call a bearer token given when it is a non-empty string. With
  neither a given bearer token nor OAuth credentials the constructor throws the
  error that one of them is required; with a given bearer token and OAuth
  credentials it throws the error that both were provided; it succeeds exactly when
  one and only one of the two is given. The constructor is a function of its
  options alone, and the client it returns has an empty cache and no refresh in
  flight.
\<close>

theorem construction_needs_exactly_one_credential:
  "(\<not> truthy_string (bearerToken_o opts) \<and> oauthCredentials_o opts = None \<longrightarrow>
      R2CClient opts =
        Inl (R2C (R2CError_new ''Either bearerToken or oauthCredentials is required'')))
   \<and> (truthy_string (bearerToken_o opts) \<and> oauthCredentials_o opts \<noteq> None \<longrightarrow>
      R2CClient opts =
        Inl (R2C (R2CError_new
          ''Cannot provide both bearerToken and oauthCredentials. Choose one authentication method.'')))
   \<and> ((\<exists>c. R2CClient opts = Inr c) \<longleftrightarrow>
        (truthy_string (bearerToken_o opts) \<noteq> (oauthCredentials_o opts \<noteq> None)))
   \<and> (\<forall>c. R2CClient opts = Inr c \<longrightarrow>
        tokenCache c = None \<and> refreshPromise c = None
        \<and> bearerToken c = (if truthy_string (bearerToken_o opts) then bearerToken_o opts else None)
        \<and> oauthCredentials c = oauthCredentials_o opts)"
  by (auto simp add: R2CClient_def APIClient_new_def)

text \<open>The four constructions of the test suite.\<close>

theorem construction_needs_exactly_one_credential_witness:
  "R2CClient \<lparr>bearerToken_o = None, oauthCredentials_o = None, baseURL_o = None\<rparr> =
     Inl (R2C (R2CError_new ''Either bearerToken or oauthCredentials is required''))
   \<and> R2CClient \<lparr>bearerToken_o = Some ''token'', oauthCredentials_o = Some example_credentials,
                 baseURL_o = None\<rparr> =
     Inl (R2C (R2CError_new
       ''Cannot provide both bearerToken and oauthCredentials. Choose one authentication method.''))
   \<and> R2CClient \<lparr>bearerToken_o = Some ''test-token'', oauthCredentials_o = None,
                 baseURL_o = None\<rparr> =
     Inr (APIClient_new None (Some ''test-token'') None)
   \<and> R2CClient \<lparr>bearerToken_o = None, oauthCredentials_o = Some example_credentials,
                 baseURL_o = None\<rparr> =
     Inr (APIClient_new None None (Some example_credentials))"
proof -
  let ?neither = "\<lparr>bearerToken_o = None, oauthCredentials_o = None, baseURL_o = None\<rparr>"
  let ?both = "\<lparr>bearerToken_o = Some ''token'', oauthCredentials_o = Some example_credentials,
                 baseURL_o = None\<rparr>"
  have n: "\<not> truthy_string (bearerToken_o ?neither) \<and> oauthCredentials_o ?neither = None"
    by (simp add: truthy_string_def)
  have b: "truthy_string (bearerToken_o ?both) \<and> oauthCredentials_o ?both \<noteq> None"
    by (simp add: truthy_string_def)
  from construction_needs_exactly_one_credential[of ?neither] n
  have 1: "R2CClient ?neither =
      Inl (R2C (R2CError_new ''Either bearerToken or oauthCredentials is required''))"
    by blast
  from construction_needs_exactly_one_credential[of ?both] b
  have 2: "R2CClient ?both = Inl (R2C (R2CError_new
       ''Cannot provide both bearerToken and oauthCredentials. Choose one authentication method.''))"
    by blast
  show ?thesis
    using 1 2 by (simp add: R2CClient_def truthy_string_def APIClient_new_def)
qed

text \<open>
  Claim C10. Whether a bearer token is present is decided by its truthiness. With
  the empty string as \<^verbatim>\<open>bearerToken\<close> and no OAuth credentials the constructor throws
  the error that one of the two is required; with the empty string and OAuth
  credentials it succeeds, and the client has no bearer token and those OAuth
  credentials. In general the empty string is treated as an absent bearer token.
\<close>

theorem empty_bearerToken_counts_as_absent:
  "R2CClient \<lparr>bearerToken_o = Some [], oauthCredentials_o = None, baseURL_o = b\<rparr> =
     Inl (R2C (R2CError_new ''Either bearerToken or oauthCredentials is required''))
   \<and> (\<exists>c. R2CClient \<lparr>bearerToken_o = Some [], oauthCredentials_o = Some cr, baseURL_o = b\<rparr> = Inr c
        \<and> bearerToken c = None \<and> oauthCredentials c = Some cr)
   \<and> R2CClient (opts\<lparr>bearerToken_o := Some []\<rparr>) = R2CClient (opts\<lparr>bearerToken_o := None\<rparr>)"
  by (simp add: R2CClient_def truthy_string_def APIClient_new_def)

text \<open>The two constructions with the test suite's credentials.\<close>

theorem empty_bearerToken_counts_as_absent_witness:
  "R2CClient \<lparr>bearerToken_o = Some [], oauthCredentials_o = None,
              baseURL_o = Some ''https://custom.api.com''\<rparr> =
     Inl (R2C (R2CError_new ''Either bearerToken or oauthCredentials is required''))
   \<and> R2CClient \<lparr>bearerToken_o = Some [], oauthCredentials_o = Some example_credentials,
                 baseURL_o = Some ''https://custom.api.com''\<rparr> =
     Inr \<lparr>baseURL = ''https://custom.api.com'', bearerToken = None,
          oauthCredentials = Some example_credentials, tokenCache = None,
          refreshPromise = None\<rparr>"
proof -
  from empty_bearerToken_counts_as_absent[of "Some ''https://custom.api.com''" example_credentials]
  have "R2CClient \<lparr>bearerToken_o = Some [], oauthCredentials_o = None,
              baseURL_o = Some ''https://custom.api.com''\<rparr> =
     Inl (R2C (R2CError_new ''Either bearerToken or oauthCredentials is required''))"
    by (rule conjunct1)
  then show ?thesis
    by (simp add: R2CClient_def truthy_string_def APIClient_new_def)
qed

end
